theory Spec2Isabelle
  imports Complex_Main
begin

section \<open>Data model (src/types/index.ts)\<close>

text \<open>
  A \<open>MoodEntry\<close> is a plain object. Its \<open>id\<close> field is called \<open>eid\<close> here, because
  \<open>id\<close> is the identity function of HOL. JavaScript numbers that hold integers
  (levels, millisecond timestamps) are modelled as \<open>int\<close>; optional fields are options.
\<close>

datatype MoodCategory =
  calm | happy | energetic | anxious | tired | focused | stressed | grateful

record MoodEntry =
  eid :: string
  level :: int
  category :: MoodCategory
  "note" :: "string option"
  timestamp :: int
  userId :: "string option"

section \<open>The optimistic Ledger (src/stores/moodStore.ts)\<close>

text \<open>
  The store's state. \<open>uuid()\<close> and \<open>Date.now()\<close> are inputs of the environment: the actions
  that call them take the generated uuid \<open>u\<close> and the clock reading \<open>now\<close> as their first
  arguments.
\<close>

record MoodState =
  entries :: "MoodEntry list"
  pendingEntries :: "string \<rightharpoonup> MoodEntry"
  isLoading :: bool
  isSyncing :: bool
  error :: "string option"
  lastSyncAt :: "int option"

definition initialState :: MoodState where
  "initialState =
     \<lparr>entries = [], pendingEntries = Map.empty, isLoading = False, isSyncing = False,
      error = None, lastSyncAt = None\<rparr>"

text \<open>
  The store is built with zustand's \<open>immer\<close> middleware: every action runs
  \<open>set((state) => { ... })\<close>, and the function works on an immer draft of the state. immer
  drafts a \<open>Map\<close> through its MapSet plugin, which \<open>enableMapSet()\<close> loads; no module of the
  repository calls \<open>enableMapSet()\<close>. Reading \<open>state.pendingEntries\<close> on the draft therefore
  throws (\<open>getPlugin("MapSet")\<close> finds no plugin), immer drops the draft with every change
  made to it so far, the state of the store stays what it was, and the exception leaves
  the action.
\<close>

datatype StoreError = MapSetNotLoaded

definition mapSetLoaded :: bool where
  "mapSetLoaded = False"

text \<open>The draft of a \<open>Map\<close> held in the state.\<close>

definition draftMap :: "('k \<rightharpoonup> 'v) \<Rightarrow> StoreError + ('k \<rightharpoonup> 'v)" where
  "draftMap m = (if mapSetLoaded then Inr m else Inl MapSetNotLoaded)"

text \<open>\<open>set(recipe)\<close>: the recipe runs on the draft; when it throws, the state is kept.\<close>

definition setState ::
  "(MoodState \<Rightarrow> StoreError + MoodState) \<Rightarrow> MoodState \<Rightarrow> (StoreError + unit) \<times> MoodState" where
  "setState recipe s =
     (case recipe s of
        Inl e \<Rightarrow> (Inl e, s)
      | Inr s' \<Rightarrow> (Inr (), s'))"

text \<open>\<open>Array.prototype.findIndex\<close>: the first index whose element satisfies the predicate;
  the source's \<open>-1\<close> is \<open>None\<close>.\<close>

fun findIndex :: "('a \<Rightarrow> bool) \<Rightarrow> 'a list \<Rightarrow> nat option" where
  "findIndex P [] = None"
| "findIndex P (x # xs) = (if P x then Some 0 else map_option Suc (findIndex P xs))"

text \<open>The temporary id \<open>`temp-${uuid()}`\<close> and the entry that \<open>addEntry\<close> builds before it
  calls \<open>set\<close>.\<close>

definition tempIdFor :: "string \<Rightarrow> string" where
  "tempIdFor u = ''temp-'' @ u"

definition newEntry :: "string \<Rightarrow> int \<Rightarrow> MoodCategory \<Rightarrow> int \<Rightarrow> string option \<Rightarrow> MoodEntry" where
  "newEntry u now cat lvl nt =
     \<lparr>eid = tempIdFor u, level = lvl, category = cat, note = nt,
      timestamp = now, userId = None\<rparr>"

text \<open>\<open>addEntry\<close> returns the entry after \<open>set\<close>; an exception of \<open>set\<close> leaves \<open>addEntry\<close>
  before the \<open>return\<close>.\<close>

definition addEntry ::
  "string \<Rightarrow> int \<Rightarrow> MoodCategory \<Rightarrow> int \<Rightarrow> string option \<Rightarrow> MoodState
   \<Rightarrow> (StoreError + MoodEntry) \<times> MoodState" where
  "addEntry u now cat lvl nt s =
     (let tempId = tempIdFor u;
          entry = newEntry u now cat lvl nt
      in case setState
           (\<lambda>state.
              let state = state\<lparr>entries := entry # entries state\<rparr>
              in case draftMap (pendingEntries state) of
                   Inl e \<Rightarrow> Inl e
                 | Inr pending \<Rightarrow> Inr (state\<lparr>pendingEntries := pending(tempId \<mapsto> entry)\<rparr>)) s of
           (Inl e, s') \<Rightarrow> (Inl e, s')
         | (Inr _, s') \<Rightarrow> (Inr entry, s'))"

text \<open>\<open>Partial<Pick<MoodEntry, 'level' | 'category' | 'note'>>\<close>: a key that is absent is
  \<open>None\<close>; \<open>note\<close> may be present with the value \<open>undefined\<close>, which is \<open>Some None\<close>.\<close>

record EntryUpdates =
  upd_level :: "int option"
  upd_category :: "MoodCategory option"
  upd_note :: "string option option"

definition assign :: "MoodEntry \<Rightarrow> EntryUpdates \<Rightarrow> MoodEntry" where
  "assign e u =
     e\<lparr>level := (case upd_level u of None \<Rightarrow> level e | Some l \<Rightarrow> l),
       category := (case upd_category u of None \<Rightarrow> category e | Some c \<Rightarrow> c),
       note := (case upd_note u of None \<Rightarrow> note e | Some n \<Rightarrow> n)\<rparr>"

text \<open>\<open>updateEntry\<close>, \<open>setEntries\<close> and \<open>addRealtimeEntry\<close> do not touch the \<open>Map\<close>: their
  recipes never throw, and the action is a function from the state to the next state.\<close>

definition updateEntry :: "string \<Rightarrow> EntryUpdates \<Rightarrow> MoodState \<Rightarrow> MoodState" where
  "updateEntry i updates s =
     (case findIndex (\<lambda>e. eid e = i) (entries s) of
        None \<Rightarrow> s
      | Some index \<Rightarrow> s\<lparr>entries := (entries s)[index := assign (entries s ! index) updates]\<rparr>)"

definition deleteEntry :: "string \<Rightarrow> MoodState \<Rightarrow> (StoreError + unit) \<times> MoodState" where
  "deleteEntry i s =
     setState
       (\<lambda>state.
          let state = state\<lparr>entries := filter (\<lambda>e. eid e \<noteq> i) (entries state)\<rparr>
          in case draftMap (pendingEntries state) of
               Inl e \<Rightarrow> Inl e
             | Inr pending \<Rightarrow> Inr (state\<lparr>pendingEntries := pending(i := None)\<rparr>)) s"

definition confirmEntry :: "string \<Rightarrow> MoodEntry \<Rightarrow> MoodState \<Rightarrow> (StoreError + unit) \<times> MoodState" where
  "confirmEntry tempId confirmedEntry s =
     setState
       (\<lambda>state.
          let state = (case findIndex (\<lambda>e. eid e = tempId) (entries state) of
                         None \<Rightarrow> state
                       | Some index \<Rightarrow>
                           state\<lparr>entries := (entries state)[index := confirmedEntry]\<rparr>)
          in case draftMap (pendingEntries state) of
               Inl e \<Rightarrow> Inl e
             | Inr pending \<Rightarrow> Inr (state\<lparr>pendingEntries := pending(tempId := None)\<rparr>)) s"

definition rejectEntry :: "string \<Rightarrow> string \<Rightarrow> MoodState \<Rightarrow> (StoreError + unit) \<times> MoodState" where
  "rejectEntry tempId err s =
     setState
       (\<lambda>state.
          let state = state\<lparr>entries := filter (\<lambda>e. eid e \<noteq> tempId) (entries state)\<rparr>
          in case draftMap (pendingEntries state) of
               Inl e \<Rightarrow> Inl e
             | Inr pending \<Rightarrow>
                 Inr (state\<lparr>pendingEntries := pending(tempId := None), error := Some err\<rparr>)) s"

definition setEntries :: "int \<Rightarrow> MoodEntry list \<Rightarrow> MoodState \<Rightarrow> MoodState" where
  "setEntries now es s = s\<lparr>entries := es, lastSyncAt := Some now, isLoading := False\<rparr>"

definition addRealtimeEntry :: "MoodEntry \<Rightarrow> MoodState \<Rightarrow> MoodState" where
  "addRealtimeEntry entry s =
     (if \<not> list_ex (\<lambda>e. eid e = eid entry) (entries s)
      then s\<lparr>entries := entry # entries s\<rparr>
      else s)"

definition setLoading :: "bool \<Rightarrow> MoodState \<Rightarrow> MoodState" where
  "setLoading loading s = s\<lparr>isLoading := loading\<rparr>"

definition setSyncing :: "bool \<Rightarrow> MoodState \<Rightarrow> MoodState" where
  "setSyncing syncing s = s\<lparr>isSyncing := syncing\<rparr>"

definition clearError :: "MoodState \<Rightarrow> MoodState" where
  "clearError s = s\<lparr>error := None\<rparr>"

text \<open>How many entries of the Ledger carry a given id.\<close>

definition copies :: "string \<Rightarrow> MoodState \<Rightarrow> nat" where
  "copies i s = length (filter (\<lambda>e. eid e = i) (entries s))"



text \<open>
  The states of the Ledger: the initial state and every state that an action of the store
  leaves behind. \<open>setEntries\<close> receives the list of a server response, whose ids are
  pairwise distinct.
\<close>

inductive ledgerState :: "MoodState \<Rightarrow> bool" where
  ls_initial: "ledgerState initialState"
| ls_addEntry: "ledgerState s \<Longrightarrow> ledgerState (snd (addEntry u now cat lvl nt s))"
| ls_updateEntry: "ledgerState s \<Longrightarrow> ledgerState (updateEntry i updates s)"
| ls_deleteEntry: "ledgerState s \<Longrightarrow> ledgerState (snd (deleteEntry i s))"
| ls_confirmEntry: "ledgerState s \<Longrightarrow> ledgerState (snd (confirmEntry t c s))"
| ls_rejectEntry: "ledgerState s \<Longrightarrow> ledgerState (snd (rejectEntry t err s))"
| ls_setEntries: "ledgerState s \<Longrightarrow> distinct (map eid es) \<Longrightarrow> ledgerState (setEntries now es s)"
| ls_addRealtimeEntry: "ledgerState s \<Longrightarrow> ledgerState (addRealtimeEntry e s)"
| ls_setLoading: "ledgerState s \<Longrightarrow> ledgerState (setLoading b s)"
| ls_setSyncing: "ledgerState s \<Longrightarrow> ledgerState (setSyncing b s)"
| ls_clearError: "ledgerState s \<Longrightarrow> ledgerState (clearError s)"

section \<open>Local time (the \<open>Date\<close> object of the runtime)\<close>

text \<open>
  \<open>Date\<close> is not code of the repository; the model follows ECMAScript. A time zone is the
  function \<open>LocalTZA(t, isUTC)\<close>: the offset of local time from UTC in milliseconds, in force
  at the UTC instant \<open>t\<close> (\<open>isUTC\<close> true) or at the local time \<open>t\<close> (\<open>isUTC\<close> false).
  \<open>LocalTime\<close> and \<open>UTC\<close> convert between the two, \<open>Day\<close> is the day number of a time value.
  The year, month and date that \<open>new Date(y, m, d)\<close> and \<open>setHours\<close> read and put back
  determine exactly the day number of the local time, so the model keeps the day number
  (\<open>new Date(y, m, d)\<close> reads a year below 100 as a year of the twentieth century; the model
  is for clock readings from the year 100 on).
\<close>

type_synonym TimeZone = "int \<Rightarrow> bool \<Rightarrow> int"

definition msPerDay :: int where
  "msPerDay = 86400000"

definition LocalTime :: "TimeZone \<Rightarrow> int \<Rightarrow> int" where
  "LocalTime tz t = t + tz t True"

definition UTC :: "TimeZone \<Rightarrow> int \<Rightarrow> int" where
  "UTC tz t = t - tz t False"

definition Day :: "int \<Rightarrow> int" where
  "Day t = t div msPerDay"

text \<open>\<open>MakeTime(hour, min, sec, ms)\<close>.\<close>

definition MakeTime :: "int \<Rightarrow> int \<Rightarrow> int \<Rightarrow> int \<Rightarrow> int" where
  "MakeTime h m s ms = h * 3600000 + m * 60000 + s * 1000 + ms"

text \<open>\<open>new Date(now.getFullYear(), now.getMonth(), now.getDate()).getTime()\<close>.\<close>

definition localMidnight :: "TimeZone \<Rightarrow> int \<Rightarrow> int" where
  "localMidnight tz now = UTC tz (Day (LocalTime tz now) * msPerDay)"

text \<open>\<open>date.setHours(h, m, s, ms); date.getTime()\<close> for \<open>date = new Date(timestamp)\<close>.\<close>

definition setHours :: "TimeZone \<Rightarrow> int \<Rightarrow> int \<Rightarrow> int \<Rightarrow> int \<Rightarrow> int \<Rightarrow> int" where
  "setHours tz t h m s ms = UTC tz (Day (LocalTime tz t) * msPerDay + MakeTime h m s ms)"

subsection \<open>The read side of the store (src/stores/moodStore.ts)\<close>

definition getStartOfDay :: "TimeZone \<Rightarrow> int \<Rightarrow> int" where
  "getStartOfDay tz ts = setHours tz ts 0 0 0 0"

definition getEndOfDay :: "TimeZone \<Rightarrow> int \<Rightarrow> int" where
  "getEndOfDay tz ts = setHours tz ts 23 59 59 999"

definition getEntriesInRange :: "int \<Rightarrow> int \<Rightarrow> MoodState \<Rightarrow> MoodEntry list" where
  "getEntriesInRange start end s =
     filter (\<lambda>entry. start \<le> timestamp entry \<and> timestamp entry \<le> end) (entries s)"

definition getTodayEntries :: "TimeZone \<Rightarrow> int \<Rightarrow> MoodState \<Rightarrow> MoodEntry list" where
  "getTodayEntries tz now s = getEntriesInRange (getStartOfDay tz now) (getEndOfDay tz now) s"

text \<open>A timestamp lies within the local calendar day of \<open>now\<close>: its local time has the
  same day number, that is, a clock time from 00:00:00.000 to 23:59:59.999 of that date.\<close>

definition inLocalToday :: "TimeZone \<Rightarrow> int \<Rightarrow> int \<Rightarrow> bool" where
  "inLocalToday tz now ts = (Day (LocalTime tz ts) = Day (LocalTime tz now))"

text \<open>The zone of New York around the end of daylight saving time of 2026: at
  2026-11-01T06:00:00Z (02:00 local) the offset goes from -4 h to -5 h, and local
  1 November has 25 hours. A local time that occurs twice is read with the offset before
  the transition.\<close>

definition newYork2026 :: TimeZone where
  "newYork2026 t isUTC =
     (if isUTC then (if t < 1793512800000 then - 14400000 else - 18000000)
      else (if t < 1793498400000 then - 14400000 else - 18000000))"

section \<open>The Event Bus (src/api/mockServer.ts)\<close>

datatype RealtimeEventType = mood_created | mood_updated | mood_deleted | sync_complete

datatype Payload = EntryPayload MoodEntry | IdPayload string | NullPayload

record RealtimeEvent =
  etype :: RealtimeEventType
  payload :: Payload
  ev_timestamp :: int

text \<open>
  A listener is a JavaScript callback: it acts on the world \<open>'w\<close> it can reach (stores, query
  caches) and either returns or throws an exception \<open>'x\<close>, in both cases leaving a world
  behind. \<open>eventListeners\<close> is a \<open>Set\<close>; the list holds its members in insertion order,
  the order in which \<open>forEach\<close> visits them.
\<close>

datatype ('w, 'x) outcome = Returned 'w | Threw 'x 'w

type_synonym ('w, 'x) EventCallback = "RealtimeEvent \<Rightarrow> 'w \<Rightarrow> ('w, 'x) outcome"

text \<open>\<open>emit\<close> is \<open>eventListeners.forEach(cb => cb(event))\<close>: there is no \<open>try\<close> around the
  call, so an exception of a callback leaves the loop.\<close>

fun emit :: "('w, 'x) EventCallback list \<Rightarrow> RealtimeEvent \<Rightarrow> 'w \<Rightarrow> ('w, 'x) outcome" where
  "emit [] event w = Returned w"
| "emit (cb # cbs) event w =
     (case cb event w of
        Returned w' \<Rightarrow> emit cbs event w'
      | Threw x w' \<Rightarrow> Threw x w')"

text \<open>The number of listeners that the same loop calls.\<close>

fun invoked :: "('w, 'x) EventCallback list \<Rightarrow> RealtimeEvent \<Rightarrow> 'w \<Rightarrow> nat" where
  "invoked [] event w = 0"
| "invoked (cb # cbs) event w =
     (case cb event w of
        Returned w' \<Rightarrow> Suc (invoked cbs event w')
      | Threw x w' \<Rightarrow> Suc 0)"

section \<open>The Remote Simulator (src/api/mockServer.ts)\<close>

text \<open>
  The state of the module: \<open>database.moods\<close>, the snapshot under \<open>STORAGE_KEY\<close> in
  \<open>localStorage\<close>, and the world of the listeners. The simulated latency (\<open>await delay()\<close>)
  has no effect on the values and is left out; every \<open>Date.now()\<close> is an argument. A failed
  operation is \<open>Inl\<close>: the source's \<open>throw new Error('Mood not found')\<close>, or the exception of
  a listener that leaves \<open>emit\<close>.
\<close>

record 'w Server =
  database :: "MoodEntry list"
  stored :: "MoodEntry list option"
  world :: 'w

datatype 'x ServerError = MoodNotFound | ListenerError 'x

record 'a ApiResponse =
  data :: 'a
  success :: bool
  resp_timestamp :: int

record 'a PaginatedResponse = "'a list ApiResponse" +
  total :: nat
  page :: nat
  pageSize :: nat
  hasMore :: bool

record MoodFilter =
  startDate :: "int option"
  endDate :: "int option"
  categories :: "MoodCategory list option"
  levels :: "int list option"

definition saveDatabase :: "'w Server \<Rightarrow> 'w Server" where
  "saveDatabase s = s\<lparr>stored := Some (database s)\<rparr>"

text \<open>\<open>moods.sort((a, b) => b.timestamp - a.timestamp)\<close>: a stable sort, largest timestamp
  first.\<close>

definition sortDesc :: "MoodEntry list \<Rightarrow> MoodEntry list" where
  "sortDesc moods = sort_key (\<lambda>m. - timestamp m) moods"

text \<open>
  \<open>getAll\<close>. The guards are JavaScript truth tests: \<open>filter?.startDate\<close> is false when the
  filter or the field is absent and when the number is 0; \<open>filter?.categories?.length\<close> is
  false when the list is absent and when it is empty.
\<close>

definition getAll :: "int \<Rightarrow> MoodFilter option \<Rightarrow> MoodEntry list \<Rightarrow> MoodEntry PaginatedResponse" where
  "getAll now flt db =
     (let moods = db;
          moods = (case Option.bind flt startDate of
                     None \<Rightarrow> moods
                   | Some sd \<Rightarrow> if sd \<noteq> 0 then filter (\<lambda>m. sd \<le> timestamp m) moods else moods);
          moods = (case Option.bind flt endDate of
                     None \<Rightarrow> moods
                   | Some ed \<Rightarrow> if ed \<noteq> 0 then filter (\<lambda>m. timestamp m \<le> ed) moods else moods);
          moods = (case Option.bind flt categories of
                     None \<Rightarrow> moods
                   | Some cs \<Rightarrow> if length cs \<noteq> 0
                       then filter (\<lambda>m. category m \<in> set cs) moods else moods);
          moods = (case Option.bind flt levels of
                     None \<Rightarrow> moods
                   | Some ls \<Rightarrow> if length ls \<noteq> 0
                       then filter (\<lambda>m. level m \<in> set ls) moods else moods);
          moods = sortDesc moods
      in \<lparr>data = moods, success = True, resp_timestamp = now,
          total = length moods, page = 1, pageSize = length moods, hasMore = False\<rparr>)"

text \<open>
  The selection of \<open>getAll\<close> as the specification states it: every field of the filter
  that is present restricts the result.
\<close>

definition matchesAsStated :: "MoodFilter \<Rightarrow> MoodEntry \<Rightarrow> bool" where
  "matchesAsStated f m =
     ((case startDate f of None \<Rightarrow> True | Some sd \<Rightarrow> sd \<le> timestamp m)
      \<and> (case endDate f of None \<Rightarrow> True | Some ed \<Rightarrow> timestamp m \<le> ed)
      \<and> (case categories f of None \<Rightarrow> True | Some cs \<Rightarrow> category m \<in> set cs)
      \<and> (case levels f of None \<Rightarrow> True | Some ls \<Rightarrow> level m \<in> set ls))"

text \<open>
  The selection of \<open>getAll\<close> as the guards have it: a list of categories or of levels
  restricts the result when it is present and not empty.
\<close>

definition matchesNonEmpty :: "MoodFilter \<Rightarrow> MoodEntry \<Rightarrow> bool" where
  "matchesNonEmpty f m =
     ((case startDate f of None \<Rightarrow> True | Some sd \<Rightarrow> sd \<le> timestamp m)
      \<and> (case endDate f of None \<Rightarrow> True | Some ed \<Rightarrow> timestamp m \<le> ed)
      \<and> (case categories f of None \<Rightarrow> True | Some cs \<Rightarrow> cs = [] \<or> category m \<in> set cs)
      \<and> (case levels f of None \<Rightarrow> True | Some ls \<Rightarrow> ls = [] \<or> level m \<in> set ls))"

definition getById :: "int \<Rightarrow> string \<Rightarrow> MoodEntry list \<Rightarrow> 'x ServerError + MoodEntry ApiResponse" where
  "getById now i db =
     (case find (\<lambda>m. eid m = i) db of
        None \<Rightarrow> Inl MoodNotFound
      | Some mood \<Rightarrow> Inr \<lparr>data = mood, success = True, resp_timestamp = now\<rparr>)"

text \<open>\<open>create\<close>: \<open>u\<close> is the value of \<open>uuid()\<close>; the entry comes without an id, so the \<open>eid\<close> of
  the argument is overwritten.\<close>

definition create ::
  "('w, 'x) EventCallback list \<Rightarrow> string \<Rightarrow> int \<Rightarrow> int \<Rightarrow> MoodEntry \<Rightarrow> 'w Server
   \<Rightarrow> ('x ServerError + MoodEntry ApiResponse) \<times> 'w Server" where
  "create ls u tEvent tResp entry s =
     (let newMood = entry\<lparr>eid := u\<rparr>;
          s = saveDatabase (s\<lparr>database := newMood # database s\<rparr>)
      in case emit ls \<lparr>etype = mood_created, payload = EntryPayload newMood,
                       ev_timestamp = tEvent\<rparr> (world s) of
           Threw x w \<Rightarrow> (Inl (ListenerError x), s\<lparr>world := w\<rparr>)
         | Returned w \<Rightarrow>
             (Inr \<lparr>data = newMood, success = True, resp_timestamp = tResp\<rparr>, s\<lparr>world := w\<rparr>))"

text \<open>\<open>Partial<MoodEntry>\<close>: an absent key is \<open>None\<close>; the optional fields may be present
  with the value \<open>undefined\<close>. A required field with the value \<open>undefined\<close> has no
  counterpart in \<open>MoodEntry\<close> and is not modelled.\<close>

record MoodPatch =
  p_id :: "string option"
  p_level :: "int option"
  p_category :: "MoodCategory option"
  p_note :: "string option option"
  p_timestamp :: "int option"
  p_userId :: "string option option"

text \<open>\<open>{ ...mood, ...updates }\<close>.\<close>

definition spread :: "MoodEntry \<Rightarrow> MoodPatch \<Rightarrow> MoodEntry" where
  "spread mood updates =
     \<lparr>eid = (case p_id updates of None \<Rightarrow> eid mood | Some v \<Rightarrow> v),
      level = (case p_level updates of None \<Rightarrow> level mood | Some v \<Rightarrow> v),
      category = (case p_category updates of None \<Rightarrow> category mood | Some v \<Rightarrow> v),
      note = (case p_note updates of None \<Rightarrow> note mood | Some v \<Rightarrow> v),
      timestamp = (case p_timestamp updates of None \<Rightarrow> timestamp mood | Some v \<Rightarrow> v),
      userId = (case p_userId updates of None \<Rightarrow> userId mood | Some v \<Rightarrow> v)\<rparr>"

definition update ::
  "('w, 'x) EventCallback list \<Rightarrow> int \<Rightarrow> int \<Rightarrow> string \<Rightarrow> MoodPatch \<Rightarrow> 'w Server
   \<Rightarrow> ('x ServerError + MoodEntry ApiResponse) \<times> 'w Server" where
  "update ls tEvent tResp i updates s =
     (case findIndex (\<lambda>m. eid m = i) (database s) of
        None \<Rightarrow> (Inl MoodNotFound, s)
      | Some index \<Rightarrow>
          (let s = saveDatabase
                     (s\<lparr>database := (database s)[index := spread (database s ! index) updates]\<rparr>)
           in case emit ls \<lparr>etype = mood_updated, payload = EntryPayload (database s ! index),
                            ev_timestamp = tEvent\<rparr> (world s) of
                Threw x w \<Rightarrow> (Inl (ListenerError x), s\<lparr>world := w\<rparr>)
              | Returned w \<Rightarrow>
                  (Inr \<lparr>data = database s ! index, success = True, resp_timestamp = tResp\<rparr>,
                   s\<lparr>world := w\<rparr>)))"

text \<open>\<open>delete\<close>: \<open>splice(index, 1)\<close> removes the element at \<open>index\<close>.\<close>

definition delete ::
  "('w, 'x) EventCallback list \<Rightarrow> int \<Rightarrow> int \<Rightarrow> string \<Rightarrow> 'w Server
   \<Rightarrow> ('x ServerError + unit ApiResponse) \<times> 'w Server" where
  "delete ls tEvent tResp i s =
     (case findIndex (\<lambda>m. eid m = i) (database s) of
        None \<Rightarrow> (Inl MoodNotFound, s)
      | Some index \<Rightarrow>
          (let s = saveDatabase
                     (s\<lparr>database := take index (database s) @ drop (Suc index) (database s)\<rparr>)
           in case emit ls \<lparr>etype = mood_deleted, payload = IdPayload i,
                            ev_timestamp = tEvent\<rparr> (world s) of
                Threw x w \<Rightarrow> (Inl (ListenerError x), s\<lparr>world := w\<rparr>)
              | Returned w \<Rightarrow>
                  (Inr \<lparr>data = (), success = True, resp_timestamp = tResp\<rparr>, s\<lparr>world := w\<rparr>)))"

text \<open>\<open>getToday\<close>: \<open>tz\<close> is the time zone of the runtime and \<open>now\<close> the value of
  \<open>new Date()\<close>.\<close>

definition getToday :: "TimeZone \<Rightarrow> int \<Rightarrow> int \<Rightarrow> MoodEntry list \<Rightarrow> MoodEntry list ApiResponse" where
  "getToday tz now tResp db =
     (let startOfDay = localMidnight tz now;
          endOfDay = startOfDay + 24 * 60 * 60 * 1000 - 1;
          todayMoods = sortDesc
            (filter (\<lambda>m. startOfDay \<le> timestamp m \<and> timestamp m \<le> endOfDay) db)
      in \<lparr>data = todayMoods, success = True, resp_timestamp = tResp\<rparr>)"

text \<open>
  \<open>getStats\<close>. \<open>byCategory\<close> is an object used as a dictionary. The quotient of two JavaScript
  numbers is a rounded double; the model keeps the exact rational, which has the same
  guard against a zero count.
\<close>

record Stats =
  average :: rat
  count :: nat
  byCategory :: "MoodCategory \<rightharpoonup> nat"

definition tally :: "MoodEntry \<Rightarrow> (MoodCategory \<rightharpoonup> nat) \<times> int \<Rightarrow> (MoodCategory \<rightharpoonup> nat) \<times> int" where
  "tally m acc =
     (case acc of (byCat, tot) \<Rightarrow>
        (byCat(category m \<mapsto> (case byCat (category m) of None \<Rightarrow> 0 | Some n \<Rightarrow> n) + 1),
         tot + level m))"

definition getStats :: "int \<Rightarrow> int \<Rightarrow> int \<Rightarrow> MoodEntry list \<Rightarrow> Stats ApiResponse" where
  "getStats tResp start end db =
     (let moods = filter (\<lambda>m. start \<le> timestamp m \<and> timestamp m \<le> end) db;
          acc = fold tally moods (Map.empty, 0)
      in \<lparr>data = \<lparr>average = (if length moods \<noteq> 0
                               then of_int (snd acc) / of_nat (length moods) else 0),
                   count = length moods,
                   byCategory = fst acc\<rparr>,
          success = True, resp_timestamp = tResp\<rparr>)"

section \<open>Identifiers made by \<open>uuid()\<close>\<close>



section \<open>Concrete values used in the examples\<close>

definition serverEntry0 :: MoodEntry where
  "serverEntry0 =
     \<lparr>eid = ''3f2b8c1e-5d4a-4c7b-9e0f-1a2b3c4d5e6f'', level = 4, category = happy,
      note = None, timestamp = 1000, userId = None\<rparr>"

text \<open>A Ledger that holds the pending entry \<open>temp-u1\<close>, in the list and in the \<open>Map\<close>.\<close>

definition trackedState :: MoodState where
  "trackedState =
     initialState\<lparr>entries := [newEntry ''u1'' 1000 happy 4 None],
                  pendingEntries := [''temp-u1'' \<mapsto> newEntry ''u1'' 1000 happy 4 None]\<rparr>"

definition mkEntry :: "string \<Rightarrow> MoodCategory \<Rightarrow> int \<Rightarrow> int \<Rightarrow> MoodEntry" where
  "mkEntry i c l t = \<lparr>eid = i, level = l, category = c, note = None, timestamp = t, userId = None\<rparr>"

definition happy45 :: MoodFilter where
  "happy45 = \<lparr>startDate = None, endDate = None, categories = Some [happy], levels = Some [4, 5]\<rparr>"

definition emptyCategories :: MoodFilter where
  "emptyCategories = \<lparr>startDate = None, endDate = None, categories = Some [], levels = None\<rparr>"

definition db0 :: "MoodEntry list" where
  "db0 = [mkEntry ''a'' happy 4 10, mkEntry ''b'' calm 5 20, mkEntry ''c'' happy 5 30,
          mkEntry ''d'' happy 2 40]"

definition server0 :: "string list Server" where
  "server0 = \<lparr>database = db0, stored = Some db0, world = []\<rparr>"

definition noPatch :: MoodPatch where
  "noPatch = \<lparr>p_id = None, p_level = Some 1, p_category = None, p_note = None,
              p_timestamp = None, p_userId = None\<rparr>"

definition throwingListener :: "(string list, string) EventCallback" where
  "throwingListener event w = Threw ''boom'' w"

definition loggingListener :: "(string list, string) EventCallback" where
  "loggingListener event w = Returned (w @ [''seen''])"

definition syncEvent :: RealtimeEvent where
  "syncEvent = \<lparr>etype = sync_complete, payload = NullPayload, ev_timestamp = 0\<rparr>"

text \<open>An entry written at 23:15 local time of 1 November 2026 in New York
  (2026-11-02T04:15:00Z).\<close>

definition lateEntry :: MoodEntry where
  "lateEntry = mkEntry ''late'' calm 3 1793592900000"

section \<open>The actions that touch the Map\<close>

lemma draftMap_throws: "draftMap m = Inl MapSetNotLoaded"
  by (simp add: draftMap_def mapSetLoaded_def)

lemma addEntry_throws: "addEntry u now cat lvl nt s = (Inl MapSetNotLoaded, s)"
  by (simp add: addEntry_def setState_def draftMap_throws Let_def)

lemma deleteEntry_throws: "deleteEntry i s = (Inl MapSetNotLoaded, s)"
  by (simp add: deleteEntry_def setState_def draftMap_throws Let_def)

lemma confirmEntry_throws: "confirmEntry t c s = (Inl MapSetNotLoaded, s)"
  by (simp add: confirmEntry_def setState_def draftMap_throws Let_def)

lemma rejectEntry_throws: "rejectEntry t err s = (Inl MapSetNotLoaded, s)"
  by (simp add: rejectEntry_def setState_def draftMap_throws Let_def)

section \<open>Rollback of an optimistic create\<close>

text \<open>
  Claim C2 at the input on which the code breaks it. In the initial store the create
  throws and inserts nothing; the rejection of the temporary id with the message
  \<open>Failed to create mood entry\<close> throws as well, and the error field of the store is still
  empty, where the claim has it hold the message.
\<close>

theorem rejectEntry_sets_no_error:
  "addEntry ''u1'' 1000 happy 4 None initialState = (Inl MapSetNotLoaded, initialState)
   \<and> rejectEntry (tempIdFor ''u1'') ''Failed to create mood entry'' initialState
       = (Inl MapSetNotLoaded, initialState)
   \<and> error (snd (rejectEntry (tempIdFor ''u1'') ''Failed to create mood entry'' initialState))
       = None"
  by (simp add: addEntry_throws rejectEntry_throws) (simp add: initialState_def)

section \<open>Confirming a pending entry\<close>

lemma findIndex_None_iff: "findIndex P xs = None \<longleftrightarrow> (\<forall>x\<in>set xs. \<not> P x)"
  by (induction xs) auto

lemma findIndex_Some_lt: "findIndex P xs = Some i \<Longrightarrow> i < length xs \<and> P (xs ! i)"
  by (induction xs arbitrary: i) (auto split: if_splits)

text \<open>
  Claim C3 at the input on which the code breaks it. In a Ledger that holds the pending
  entry \<open>temp-u1\<close>, \<open>confirmEntry\<close> throws: the entry is not replaced by the confirmed entry
  and \<open>temp-u1\<close> is still among the pending entries, where the claim has the first call
  replace the entry and remove the id from the pending entries.
\<close>

theorem confirmEntry_replaces_nothing:
  "confirmEntry ''temp-u1'' serverEntry0 trackedState = (Inl MapSetNotLoaded, trackedState)
   \<and> entries (snd (confirmEntry ''temp-u1'' serverEntry0 trackedState))
       = [newEntry ''u1'' 1000 happy 4 None]
   \<and> pendingEntries (snd (confirmEntry ''temp-u1'' serverEntry0 trackedState)) ''temp-u1''
       = Some (newEntry ''u1'' 1000 happy 4 None)"
  by (simp add: confirmEntry_throws) (simp add: trackedState_def)

section \<open>Uniqueness of ids in the Ledger\<close>

lemma eid_assign: "eid (assign e u) = eid e"
  by (simp add: assign_def)

lemma ids_updateEntry: "map eid (entries (updateEntry i u s)) = map eid (entries s)"
proof (cases "findIndex (\<lambda>e. eid e = i) (entries s)")
  case None
  then show ?thesis by (simp add: updateEntry_def)
next
  case (Some k)
  then have "k < length (entries s)" by (simp add: findIndex_Some_lt)
  with Some show ?thesis
    by (simp add: updateEntry_def map_update eid_assign list_update_same_conv)
qed

lemma distinct_addRealtimeEntry:
  "distinct (map eid (entries s)) \<Longrightarrow> distinct (map eid (entries (addRealtimeEntry e s)))"
  by (auto simp: addRealtimeEntry_def list_ex_iff)

lemma ledgerState_distinct: "ledgerState s \<Longrightarrow> distinct (map eid (entries s))"
proof (induction rule: ledgerState.induct)
  case ls_initial
  show ?case by (simp add: initialState_def)
next
  case (ls_addEntry s u now cat lvl nt)
  then show ?case by (simp add: addEntry_throws)
next
  case (ls_updateEntry s i updates)
  then show ?case by (simp add: ids_updateEntry)
next
  case (ls_deleteEntry s i)
  then show ?case by (simp add: deleteEntry_throws)
next
  case (ls_confirmEntry s t c)
  then show ?case by (simp add: confirmEntry_throws)
next
  case (ls_rejectEntry s t err)
  then show ?case by (simp add: rejectEntry_throws)
next
  case (ls_setEntries s es now)
  then show ?case by (simp add: setEntries_def)
next
  case (ls_addRealtimeEntry s e)
  then show ?case by (simp add: distinct_addRealtimeEntry)
next
  case (ls_setLoading s b)
  then show ?case by (simp add: setLoading_def)
next
  case (ls_setSyncing s b)
  then show ?case by (simp add: setSyncing_def)
next
  case (ls_clearError s)
  then show ?case by (simp add: clearError_def)
qed

text \<open>
  Claim C10. Every action of the Ledger keeps the ids of the entries pairwise distinct:
  \<open>updateEntry\<close> leaves the ids as they are, \<open>setEntries\<close> installs a list whose ids are
  distinct, \<open>addRealtimeEntry\<close> inserts only an id that is not there, and \<open>addEntry\<close>,
  \<open>deleteEntry\<close>, \<open>confirmEntry\<close> and \<open>rejectEntry\<close> leave the state as it was. In
  particular \<open>confirmEntry\<close> leaves the entries as they were, so it puts no second entry
  with the id of the confirmed entry into the Ledger.
\<close>

theorem ledger_ids_stay_distinct:
  assumes "distinct (map eid (entries s))"
  shows "distinct (map eid (entries (snd (addEntry u now cat lvl nt s))))
       \<and> distinct (map eid (entries (updateEntry i updates s)))
       \<and> distinct (map eid (entries (snd (deleteEntry i s))))
       \<and> distinct (map eid (entries (snd (confirmEntry t c s))))
       \<and> distinct (map eid (entries (snd (rejectEntry t err s))))
       \<and> (distinct (map eid es) \<longrightarrow> distinct (map eid (entries (setEntries now' es s))))
       \<and> distinct (map eid (entries (addRealtimeEntry e s)))
       \<and> copies (eid c) (snd (confirmEntry t c s)) = copies (eid c) s"
proof -
  have "distinct (map eid (entries (addRealtimeEntry e s)))"
    using assms by (rule distinct_addRealtimeEntry)
  moreover have "distinct (map eid (entries (updateEntry i updates s)))"
    using assms by (simp add: ids_updateEntry)
  ultimately show ?thesis
    using assms
    by (simp add: addEntry_throws deleteEntry_throws confirmEntry_throws rejectEntry_throws
        setEntries_def)
qed

theorem ledger_ids_stay_distinct_witness:
  "distinct (map eid (entries (setEntries 0 db0 initialState)))
   \<and> distinct (map eid [serverEntry0])
   \<and> distinct (map eid (entries (snd (addEntry ''u1'' 1000 happy 4 None
         (setEntries 0 db0 initialState)))))
   \<and> distinct (map eid (entries (updateEntry ''a'' \<lparr>upd_level = Some 1, upd_category = None,
         upd_note = None\<rparr> (setEntries 0 db0 initialState))))
   \<and> distinct (map eid (entries (snd (deleteEntry ''a'' (setEntries 0 db0 initialState)))))
   \<and> distinct (map eid (entries (snd (confirmEntry ''a'' (mkEntry ''b'' calm 5 20)
         (setEntries 0 db0 initialState)))))
   \<and> distinct (map eid (entries (snd (rejectEntry ''a'' ''failed''
         (setEntries 0 db0 initialState)))))
   \<and> distinct (map eid (entries (setEntries 1 [serverEntry0] (setEntries 0 db0 initialState))))
   \<and> distinct (map eid (entries (addRealtimeEntry serverEntry0 (setEntries 0 db0 initialState))))
   \<and> copies ''b'' (snd (confirmEntry ''a'' (mkEntry ''b'' calm 5 20)
         (setEntries 0 db0 initialState))) = 1"
proof -
  have h: "distinct (map eid (entries (setEntries 0 db0 initialState)))"
    by (simp add: setEntries_def db0_def mkEntry_def)
  have d: "distinct (map eid [serverEntry0])" by simp
  have b: "eid (mkEntry ''b'' calm 5 20) = ''b''" by (simp add: mkEntry_def)
  have c: "copies ''b'' (setEntries 0 db0 initialState) = 1"
    by (simp add: copies_def setEntries_def db0_def mkEntry_def)
  show ?thesis
    using h d c
      ledger_ids_stay_distinct [OF h, of "''u1''" 1000 happy 4 None "''a''"
        "\<lparr>upd_level = Some 1, upd_category = None, upd_note = None\<rparr>"
        "''a''" "mkEntry ''b'' calm 5 20" "''failed''" "[serverEntry0]" 1 serverEntry0]
    unfolding b by simp
qed

section \<open>Ingesting a realtime entry\<close>

lemma list_ex_copies: "list_ex (\<lambda>e. eid e = i) (entries s) \<longleftrightarrow> copies i s \<noteq> 0"
  by (auto simp: copies_def list_ex_iff filter_empty_conv)

lemma distinct_at_most_one:
  "distinct (map f xs) \<Longrightarrow> length (filter (\<lambda>x. f x = i) xs) \<le> 1"
  by (induction xs) (auto simp: filter_empty_conv image_iff)

lemma realtime_twice:
  "addRealtimeEntry e (addRealtimeEntry e s) = addRealtimeEntry e s
   \<and> entries (addRealtimeEntry e s) = (if copies (eid e) s = 0 then e # entries s else entries s)
   \<and> (copies (eid e) s \<le> 1 \<longrightarrow> copies (eid e) (addRealtimeEntry e (addRealtimeEntry e s)) = 1)"
proof (cases "copies (eid e) s = 0")
  case True
  then have 1: "addRealtimeEntry e s = s\<lparr>entries := e # entries s\<rparr>"
    by (simp add: addRealtimeEntry_def list_ex_copies)
  have 2: "addRealtimeEntry e (s\<lparr>entries := e # entries s\<rparr>) = s\<lparr>entries := e # entries s\<rparr>"
    by (simp add: addRealtimeEntry_def)
  show ?thesis using True by (simp add: 1 2) (simp add: copies_def)
next
  case False
  then have "addRealtimeEntry e s = s"
    by (simp add: addRealtimeEntry_def list_ex_copies)
  with False show ?thesis by auto
qed

text \<open>
  Claim C4. In every state of the Ledger, two calls of \<open>addRealtimeEntry\<close> with the same
  entry leave exactly one entry with its id in the list: the entry is put at the head
  only if no entry of the Ledger carries its id, and the second call changes nothing.
\<close>

theorem realtime_dedup:
  assumes "ledgerState s"
  shows "copies (eid e) (addRealtimeEntry e (addRealtimeEntry e s)) = 1
       \<and> entries (addRealtimeEntry e s) = (if copies (eid e) s = 0 then e # entries s else entries s)
       \<and> addRealtimeEntry e (addRealtimeEntry e s) = addRealtimeEntry e s"
proof -
  from assms have "distinct (map eid (entries s))" by (rule ledgerState_distinct)
  then have "copies (eid e) s \<le> 1"
    unfolding copies_def by (rule distinct_at_most_one)
  with realtime_twice [of e s] show ?thesis by blast
qed

theorem realtime_dedup_witness:
  "copies (eid serverEntry0)
     (addRealtimeEntry serverEntry0 (addRealtimeEntry serverEntry0 (setEntries 0 db0 initialState)))
     = 1
   \<and> entries (addRealtimeEntry serverEntry0 (setEntries 0 db0 initialState))
       = serverEntry0 # db0
   \<and> addRealtimeEntry serverEntry0
       (addRealtimeEntry serverEntry0 (setEntries 0 db0 initialState))
       = addRealtimeEntry serverEntry0 (setEntries 0 db0 initialState)"
proof -
  have "distinct (map eid db0)" by (simp add: db0_def mkEntry_def)
  with ls_initial have h: "ledgerState (setEntries 0 db0 initialState)"
    by (rule ls_setEntries)
  have c: "copies (eid serverEntry0) (setEntries 0 db0 initialState) = 0"
    by (simp add: copies_def setEntries_def db0_def mkEntry_def serverEntry0_def)
  have e: "entries (setEntries 0 db0 initialState) = db0"
    by (simp add: setEntries_def)
  note t = realtime_dedup [OF h, of serverEntry0]
  have "entries (addRealtimeEntry serverEntry0 (setEntries 0 db0 initialState))
      = serverEntry0 # db0"
    using t by (simp only: c e) simp
  with t show ?thesis by blast
qed

section \<open>Delivery of events\<close>

lemma emit_append:
  "emit (xs @ ys) ev w =
     (case emit xs ev w of Returned w' \<Rightarrow> emit ys ev w' | Threw x w' \<Rightarrow> Threw x w')"
  by (induction xs arbitrary: w) (auto split: outcome.splits)

lemma invoked_append:
  "invoked (xs @ ys) ev w =
     (case emit xs ev w of
        Returned w' \<Rightarrow> length xs + invoked ys ev w'
      | Threw x w' \<Rightarrow> invoked xs ev w)"
  by (induction xs arbitrary: w) (auto split: outcome.splits)

lemma invoked_all: "emit ls ev w = Returned w' \<Longrightarrow> invoked ls ev w = length ls"
  by (induction ls arbitrary: w) (auto split: outcome.splits)

text \<open>
  Claim C1, as the code has it. \<open>emit\<close> calls the listeners one after the other in the order
  of their registration. If no listener throws, every listener is called. The first
  listener that throws ends the delivery: its exception leaves \<open>emit\<close>, and the listeners
  registered after it are not called.
\<close>

theorem emit_until_first_throw:
  "(emit ls ev w = Returned w' \<longrightarrow> invoked ls ev w = length ls)
   \<and> (emit pre ev w = Returned w1 \<and> cb ev w1 = Threw x w2 \<longrightarrow>
        emit (pre @ cb # post) ev w = Threw x w2
        \<and> invoked (pre @ cb # post) ev w = Suc (length pre))"
  by (simp add: invoked_all emit_append invoked_append)

theorem emit_until_first_throw_witness:
  "emit [loggingListener, loggingListener] syncEvent [] = Returned [''seen'', ''seen'']
   \<and> invoked [loggingListener, loggingListener] syncEvent [] = 2
   \<and> emit [loggingListener] syncEvent [] = Returned [''seen'']
   \<and> throwingListener syncEvent [''seen''] = Threw ''boom'' [''seen'']
   \<and> emit ([loggingListener] @ throwingListener # [loggingListener]) syncEvent []
       = Threw ''boom'' [''seen'']
   \<and> invoked ([loggingListener] @ throwingListener # [loggingListener]) syncEvent [] = 2"
proof -
  have a: "emit [loggingListener, loggingListener] syncEvent [] = Returned [''seen'', ''seen'']"
    by (simp add: loggingListener_def)
  have b: "emit [loggingListener] syncEvent [] = Returned [''seen'']"
    by (simp add: loggingListener_def)
  have c: "throwingListener syncEvent [''seen''] = Threw ''boom'' [''seen'']"
    by (simp add: throwingListener_def)
  show ?thesis
    using a b c
      emit_until_first_throw [of "[loggingListener, loggingListener]" syncEvent "[]"
        "[''seen'', ''seen'']" "[loggingListener]" "[''seen'']" throwingListener "''boom''"
        "[''seen'']" "[loggingListener]"]
    by simp
qed

text \<open>
  Claim C1 as stated fails: with a listener that throws registered before a second
  listener, \<open>emit\<close> calls one listener of the two, and the world shows no trace of the
  second.
\<close>

theorem emit_isolation_counterexample:
  "invoked [throwingListener, loggingListener] syncEvent [] \<noteq> length [throwingListener, loggingListener]
   \<and> emit [throwingListener, loggingListener] syncEvent [] = Threw ''boom'' []"
  by (simp add: throwingListener_def)

section \<open>Listing with a filter\<close>

lemma sortDesc_sorted: "sorted_wrt (\<lambda>a b. timestamp b \<le> timestamp a) (sortDesc ms)"
proof -
  have "sorted (map (\<lambda>m. - timestamp m) (sortDesc ms))"
    by (simp add: sortDesc_def)
  then show ?thesis by (simp add: sorted_map)
qed

lemma set_sortDesc: "set (sortDesc ms) = set ms"
  by (simp add: sortDesc_def)

lemma getAll_data:
  assumes "startDate f \<noteq> Some 0" and "endDate f \<noteq> Some 0"
  shows "data (getAll now (Some f) db) = sortDesc (filter (matchesNonEmpty f) db)"
proof -
  have "filter (matchesNonEmpty f) db =
    (let moods = db;
         moods = (case startDate f of None \<Rightarrow> moods
                  | Some sd \<Rightarrow> if sd \<noteq> 0 then filter (\<lambda>m. sd \<le> timestamp m) moods else moods);
         moods = (case endDate f of None \<Rightarrow> moods
                  | Some ed \<Rightarrow> if ed \<noteq> 0 then filter (\<lambda>m. timestamp m \<le> ed) moods else moods);
         moods = (case categories f of None \<Rightarrow> moods
                  | Some cs \<Rightarrow> if length cs \<noteq> 0
                      then filter (\<lambda>m. category m \<in> set cs) moods else moods);
         moods = (case levels f of None \<Rightarrow> moods
                  | Some ls \<Rightarrow> if length ls \<noteq> 0
                      then filter (\<lambda>m. level m \<in> set ls) moods else moods)
     in moods)"
    using assms
    by (auto simp: matchesNonEmpty_def Let_def split: option.splits intro!: filter_cong)
  then show ?thesis by (simp add: getAll_def Let_def)
qed

text \<open>
  Claim C5, as the code has it. For a filter whose \<open>startDate\<close> and \<open>endDate\<close>, when present,
  are not 0, \<open>getAll\<close> returns exactly the entries that satisfy all the restrictions of the
  filter together: \<open>timestamp \<ge> startDate\<close> and \<open>timestamp \<le> endDate\<close> when the bound is
  present, membership of the category and of the level when the list is present and not
  empty. The result is sorted by timestamp, largest first. Without a filter, \<open>getAll\<close>
  returns all the entries in that order.
\<close>

theorem getAll_filter_conjunction:
  assumes "startDate f \<noteq> Some 0" and "endDate f \<noteq> Some 0"
  shows "data (getAll now (Some f) db) = sortDesc (filter (matchesNonEmpty f) db)
       \<and> set (data (getAll now (Some f) db)) = {m \<in> set db. matchesNonEmpty f m}
       \<and> sorted_wrt (\<lambda>a b. timestamp b \<le> timestamp a) (data (getAll now (Some f) db))
       \<and> data (getAll now None db) = sortDesc db"
proof -
  have "data (getAll now None db) = sortDesc db"
    by (simp add: getAll_def Let_def)
  with assms show ?thesis
    by (simp add: getAll_data sortDesc_sorted set_sortDesc)
qed

text \<open>
  The instance of the specification: the filter with the categories \<open>{happy}\<close> and the levels
  \<open>{4, 5}\<close> on four entries keeps the two happy entries of level 4 and 5, the later one
  first.
\<close>

theorem getAll_filter_conjunction_witness:
  "startDate happy45 \<noteq> Some 0 \<and> endDate happy45 \<noteq> Some 0
   \<and> data (getAll 0 (Some happy45) db0) = sortDesc (filter (matchesNonEmpty happy45) db0)
   \<and> set (data (getAll 0 (Some happy45) db0)) = {m \<in> set db0. matchesNonEmpty happy45 m}
   \<and> sorted_wrt (\<lambda>a b. timestamp b \<le> timestamp a) (data (getAll 0 (Some happy45) db0))
   \<and> data (getAll 0 None db0) = sortDesc db0
   \<and> sortDesc (filter (matchesNonEmpty happy45) db0)
       = [mkEntry ''c'' happy 5 30, mkEntry ''a'' happy 4 10]"
proof -
  have h: "startDate happy45 \<noteq> Some 0" "endDate happy45 \<noteq> Some 0"
    by (simp_all add: happy45_def)
  have v: "sortDesc (filter (matchesNonEmpty happy45) db0)
       = [mkEntry ''c'' happy 5 30, mkEntry ''a'' happy 4 10]"
    by (simp add: sortDesc_def matchesNonEmpty_def happy45_def db0_def mkEntry_def)
  show ?thesis
    using h v getAll_filter_conjunction [OF h, of 0 db0] by blast
qed

text \<open>
  Claim C5 as stated fails for a filter whose list of categories is present and empty: no
  entry has its category in the empty list, and \<open>getAll\<close> returns the stored entry.
\<close>

theorem getAll_filter_counterexample:
  "data (getAll 0 (Some emptyCategories) [mkEntry ''a'' happy 4 10])
     \<noteq> sortDesc (filter (matchesAsStated emptyCategories) [mkEntry ''a'' happy 4 10])"
  by (simp add: getAll_def sortDesc_def matchesAsStated_def emptyCategories_def mkEntry_def)

section \<open>Statistics of an empty range\<close>

text \<open>
  Claim C7. When no stored entry has its timestamp in the range, \<open>getStats\<close> returns the
  average 0, the count 0 and an empty breakdown by category. \<open>getStats\<close> has no failing
  branch: the quotient is only taken when the count is not 0.
\<close>

theorem getStats_empty:
  assumes "\<forall>m\<in>set db. \<not> (start \<le> timestamp m \<and> timestamp m \<le> end)"
  shows "data (getStats tResp start end db) = \<lparr>average = 0, count = 0, byCategory = Map.empty\<rparr>"
proof -
  from assms have "filter (\<lambda>m. start \<le> timestamp m \<and> timestamp m \<le> end) db = []"
    by (simp add: filter_empty_conv)
  then show ?thesis by (simp add: getStats_def)
qed

theorem getStats_empty_witness:
  "filter (\<lambda>m. 100 \<le> timestamp m \<and> timestamp m \<le> 200) db0 = []
   \<and> data (getStats 0 100 200 db0) = \<lparr>average = 0, count = 0, byCategory = Map.empty\<rparr>"
proof -
  have h: "\<forall>m\<in>set db0. \<not> (100 \<le> timestamp m \<and> timestamp m \<le> 200)"
    by (simp add: db0_def mkEntry_def)
  have e: "filter (\<lambda>m. 100 \<le> timestamp m \<and> timestamp m \<le> 200) db0 = []"
    by (simp add: db0_def mkEntry_def)
  show ?thesis using e getStats_empty [OF h, of 0] by blast
qed

section \<open>Unknown ids\<close>

lemma findIndex_None_ids: "findIndex (\<lambda>m. eid m = i) ms = None \<longleftrightarrow> i \<notin> set (map eid ms)"
  by (auto simp: findIndex_None_iff)

lemma findIndex_Some_ids:
  assumes "findIndex (\<lambda>m. eid m = i) ms = Some k"
  shows "i \<in> set (map eid ms)"
proof -
  from assms have "k < length ms" and "eid (ms ! k) = i"
    using findIndex_Some_lt [of "\<lambda>m. eid m = i" ms k] by auto
  then have "eid (ms ! k) \<in> eid ` set ms" by (intro imageI nth_mem)
  with \<open>eid (ms ! k) = i\<close> show ?thesis by simp
qed

lemma update_not_found:
  "fst (update ls tE tR i upd s) = Inl MoodNotFound \<longleftrightarrow> i \<notin> set (map eid (database s))"
proof (cases "findIndex (\<lambda>m. eid m = i) (database s)")
  case None
  then have "fst (update ls tE tR i upd s) = Inl MoodNotFound"
    by (simp add: update_def)
  moreover from None have "i \<notin> set (map eid (database s))"
    using findIndex_None_ids [of i "database s"] by simp
  ultimately show ?thesis by simp
next
  case (Some k)
  then have "fst (update ls tE tR i upd s) \<noteq> Inl MoodNotFound"
    by (simp add: update_def Let_def split: outcome.splits)
  with findIndex_Some_ids [OF Some] show ?thesis by simp
qed

lemma delete_not_found:
  "fst (delete ls tE tR i s) = Inl MoodNotFound \<longleftrightarrow> i \<notin> set (map eid (database s))"
proof (cases "findIndex (\<lambda>m. eid m = i) (database s)")
  case None
  then have "fst (delete ls tE tR i s) = Inl MoodNotFound"
    by (simp add: delete_def)
  moreover from None have "i \<notin> set (map eid (database s))"
    using findIndex_None_ids [of i "database s"] by simp
  ultimately show ?thesis by simp
next
  case (Some k)
  then have "fst (delete ls tE tR i s) \<noteq> Inl MoodNotFound"
    by (simp add: delete_def Let_def split: outcome.splits)
  with findIndex_Some_ids [OF Some] show ?thesis by simp
qed

lemma getById_not_found:
  "getById now i db = Inl MoodNotFound \<longleftrightarrow> i \<notin> set (map eid db)"
proof (cases "find (\<lambda>m. eid m = i) db")
  case None
  then have "getById now i db = Inl MoodNotFound" by (simp add: getById_def)
  moreover from None have "i \<notin> set (map eid db)" by (auto simp: find_None_iff)
  ultimately show ?thesis by simp
next
  case (Some m)
  then have "getById now i db \<noteq> Inl MoodNotFound" by (simp add: getById_def)
  moreover from Some have "i \<in> set (map eid db)" by (auto simp: find_Some_iff)
  ultimately show ?thesis by simp
qed

text \<open>
  Claim C8. \<open>getById\<close>, \<open>update\<close> and \<open>delete\<close> fail with \<open>Mood not found\<close> exactly when no
  stored entry has the id, and an \<open>update\<close> or \<open>delete\<close> of an unknown id leaves the whole
  state of the simulator (database, persisted snapshot, listeners' world) as it was.
\<close>

theorem not_found_exactly_when_absent:
  "(getById now i db = Inl MoodNotFound \<longleftrightarrow> i \<notin> set (map eid db))
   \<and> (fst (update ls tE tR i upd s) = Inl MoodNotFound \<longleftrightarrow> i \<notin> set (map eid (database s)))
   \<and> (fst (delete ls tE tR i s) = Inl MoodNotFound \<longleftrightarrow> i \<notin> set (map eid (database s)))
   \<and> (i \<notin> set (map eid (database s)) \<longrightarrow>
        snd (update ls tE tR i upd s) = s \<and> snd (delete ls tE tR i s) = s)"
proof -
  have "snd (update ls tE tR i upd s) = s \<and> snd (delete ls tE tR i s) = s"
    if "i \<notin> set (map eid (database s))"
  proof -
    from that have "findIndex (\<lambda>m. eid m = i) (database s) = None"
      by (simp add: findIndex_None_ids)
    then show ?thesis by (simp add: update_def delete_def)
  qed
  then show ?thesis
    by (simp only: getById_not_found update_not_found delete_not_found) simp
qed

theorem not_found_exactly_when_absent_witness:
  "''zz'' \<notin> set (map eid (database server0))
   \<and> getById 0 ''zz'' (database server0) = (Inl MoodNotFound :: string ServerError + MoodEntry ApiResponse)
   \<and> fst (update [loggingListener] 0 0 ''zz'' noPatch server0) = Inl MoodNotFound
   \<and> fst (delete [loggingListener] 0 0 ''zz'' server0) = Inl MoodNotFound
   \<and> snd (update [loggingListener] 0 0 ''zz'' noPatch server0) = server0
   \<and> snd (delete [loggingListener] 0 0 ''zz'' server0) = server0"
proof -
  have h: "''zz'' \<notin> set (map eid (database server0))"
    by (simp add: server0_def db0_def mkEntry_def)
  show ?thesis
    using h not_found_exactly_when_absent
      [of 0 "''zz''" "database server0" "[loggingListener]" 0 0 noPatch server0]
    by blast
qed

section \<open>Temporary and permanent ids\<close>






section \<open>The entries of today\<close>

lemma div_eq_iff_range:
  fixes x d k :: int
  assumes "0 < d"
  shows "x div d = k \<longleftrightarrow> k * d \<le> x \<and> x < k * d + d"
proof
  assume "x div d = k"
  then have "k * d = x - x mod d"
    using minus_mod_eq_div_mult [of x d] by simp
  moreover have "0 \<le> x mod d" "x mod d < d" using assms by simp_all
  ultimately show "k * d \<le> x \<and> x < k * d + d" by linarith
next
  assume "k * d \<le> x \<and> x < k * d + d"
  then have "0 \<le> x - k * d" and "x - k * d < d" by simp_all
  then have "(x - k * d) div d = 0" by (rule div_pos_pos_trivial)
  moreover have "(x - k * d) div d = x div d - k"
    using assms div_mult_self1 [of d x "- k"] by simp
  ultimately show "x div d = k" by simp
qed

text \<open>
  In a time zone whose offset never changes, \<open>getToday\<close> returns exactly the entries of the
  local calendar day of \<open>now\<close>, largest timestamp first.
\<close>

lemma getToday_fixed_offset:
  assumes "\<And>t b. tz t b = off"
  shows "data (getToday tz now tR db)
       = sortDesc (filter (\<lambda>m. inLocalToday tz now (timestamp m)) db)"
proof -
  let ?k = "(now + off) div msPerDay"
  have d: "0 < msPerDay" by (simp add: msPerDay_def)
  have s: "localMidnight tz now = ?k * msPerDay - off"
    by (simp add: localMidnight_def UTC_def LocalTime_def Day_def assms)
  have "(?k * msPerDay - off \<le> t \<and> t \<le> ?k * msPerDay - off + 24 * 60 * 60 * 1000 - 1)
      \<longleftrightarrow> inLocalToday tz now t" for t
  proof -
    have "inLocalToday tz now t \<longleftrightarrow> (t + off) div msPerDay = ?k"
      by (simp add: inLocalToday_def LocalTime_def Day_def assms)
    also have "\<dots> \<longleftrightarrow> ?k * msPerDay \<le> t + off \<and> t + off < ?k * msPerDay + msPerDay"
      using d by (rule div_eq_iff_range)
    also have "\<dots> \<longleftrightarrow>
        (?k * msPerDay - off \<le> t \<and> t \<le> ?k * msPerDay - off + 24 * 60 * 60 * 1000 - 1)"
      by (auto simp: msPerDay_def)
    finally show ?thesis by simp
  qed
  then show ?thesis by (simp add: getToday_def Let_def s)
qed

text \<open>
  Claim C6 at the input on which the code breaks it. \<open>getToday\<close> ends the day 24 hours
  after the local midnight. In New York, 1 November 2026 has 25 hours: at 23:30 local time
  an entry written at 23:15 of the same local day is not among the entries of
  \<open>getToday\<close>, whose window has ended at 22:59:59.999. \<open>getTodayEntries\<close> of the
  store, which ends the day with \<open>setHours(23, 59, 59, 999)\<close>, returns the entry. An entry
  written at 23:59:59.999 local time of that day is not among the entries of \<open>getToday\<close>
  either.
\<close>

theorem getToday_misses_late_hour:
  "inLocalToday newYork2026 1793593800000 (timestamp lateEntry)
   \<and> data (getToday newYork2026 1793593800000 0 [lateEntry]) = []
   \<and> getTodayEntries newYork2026 1793593800000 (initialState\<lparr>entries := [lateEntry]\<rparr>)
       = [lateEntry]
   \<and> getEndOfDay newYork2026 1793593800000 = 1793595599999
   \<and> data (getToday newYork2026 1793593800000 0 [mkEntry ''last'' calm 3 1793595599999]) = []"
  by (simp add: inLocalToday_def getToday_def getTodayEntries_def getEntriesInRange_def
      getStartOfDay_def getEndOfDay_def setHours_def MakeTime_def localMidnight_def
      LocalTime_def UTC_def Day_def msPerDay_def newYork2026_def lateEntry_def mkEntry_def
      sortDesc_def initialState_def Let_def)

end
